theory Spec2Isabelle
  imports Main "HOL-Library.Sublist" "HOL-Library.Multiset"
begin

section \<open>The hybrid HTTP transport of mcp-server-qdrant\<close>

text \<open>
  A shallow embedding of \<^verbatim>\<open>src/mcp_server_qdrant/http_app.py\<close> and of
  \<^verbatim>\<open>embeddings/openai_provider.py\<close>. A Python string is the \<open>string\<close> of
  the bytes of its UTF-8 encoding, a surrogate code point written as the three bytes
  \<open>0xED 0xA0..0xBF 0x80..0xBF\<close> that the \<^verbatim>\<open>surrogatepass\<close> handler gives it, so
  that every Python string has one representation; header values, which Starlette
  decodes as Latin-1, are the list of their code points. A raised exception is the
  \<open>Inl\<close> branch of a sum type, carrying the exception's class and the text that
  \<^verbatim>\<open>str(exc)\<close> returns.
\<close>

subsection \<open>Exceptions\<close>

datatype exn =
    ValueError string
  | AttributeError string
  | TypeError string
  | UnicodeEncodeError string
  | ExternalError string

fun str_exc :: "exn \<Rightarrow> string" where
  "str_exc (ValueError m) = m"
| "str_exc (AttributeError m) = m"
| "str_exc (TypeError m) = m"
| "str_exc (UnicodeEncodeError m) = m"
| "str_exc (ExternalError m) = m"

subsection \<open>Tool-name resolution\<close>

text \<open>
  \<^verbatim>\<open>s.split(sep, 1)\<close> for a one-character separator: two pieces, cut at the first
  occurrence, when the separator occurs, and the string alone otherwise.
\<close>

definition py_split1 :: "char \<Rightarrow> string \<Rightarrow> string list" where
  "py_split1 sep s =
     (if sep \<in> set s
      then [takeWhile (\<lambda>c. c \<noteq> sep) s, tl (dropWhile (\<lambda>c. c \<noteq> sep) s)]
      else [s])"

definition known_namespaces :: "string list" where
  "known_namespaces = [''qdrant'', ''qdrant-rag'', ''qdrant-rag-mcp'']"

text \<open>
  \<^verbatim>\<open>_resolve_tool_name(raw_name: str | None)\<close>. \<open>None\<close> is the absent name;
  \<^verbatim>\<open>not raw_name\<close> holds for \<open>None\<close> and for the empty string. The tuple
  assignment \<^verbatim>\<open>namespace, rest = ...\<close> raises unless the list has two elements.
\<close>

definition resolve_tool_name :: "string option \<Rightarrow> exn + string" where
  "resolve_tool_name raw_name =
     (case raw_name of
        None \<Rightarrow> Inl (ValueError ''Missing tool name'')
      | Some raw \<Rightarrow>
          if raw = [] then Inl (ValueError ''Missing tool name'')
          else if CHR ''.'' \<in> set raw then
            (case py_split1 (CHR ''.'') raw of
               [namespace, rest] \<Rightarrow>
                 if namespace \<in> set known_namespaces then Inr rest else Inr raw
             | _ \<Rightarrow> Inl (ValueError ''not enough values to unpack (expected 2, got 1)''))
          else if prefix ''qdrant_'' raw then Inr (drop (length ''qdrant_'') raw)
          else Inr raw)"

text \<open>Resolving twice: the second resolution runs only when the first one returned.\<close>

definition resolve_twice :: "string \<Rightarrow> exn + string" where
  "resolve_twice raw =
     (case resolve_tool_name (Some raw) of
        Inl e \<Rightarrow> Inl e
      | Inr name \<Rightarrow> resolve_tool_name (Some name))"

text \<open>
  A canonical name is one that no rule of the resolver rewrites: it is not empty, and
  either its first separator follows a namespace outside the alias set, or it has no
  separator and does not start with the literal prefix.
\<close>

definition canonical :: "string \<Rightarrow> bool" where
  "canonical name \<longleftrightarrow>
     name \<noteq> [] \<and>
     (if CHR ''.'' \<in> set name
      then takeWhile (\<lambda>c. c \<noteq> CHR ''.'') name \<notin> set known_namespaces
      else \<not> prefix ''qdrant_'' name)"

subsection \<open>Request routing\<close>

text \<open>
  \<^verbatim>\<open>needle in haystack\<close> on Python strings: the needle occurs as a contiguous
  piece of the haystack.
\<close>

fun py_in :: "string \<Rightarrow> string \<Rightarrow> bool" where
  "py_in needle [] = (needle = [])"
| "py_in needle (c # cs) = (prefix needle (c # cs) \<or> py_in needle cs)"

text \<open>
  \<^verbatim>\<open>str.lower()\<close> on a header value. Starlette decodes header bytes as Latin-1, so
  every character is a code point below 256: the letters \<open>A\<close> to \<open>Z\<close> and the
  upper-case letters \<open>0xC0\<close> to \<open>0xDE\<close> (the sign \<open>0xD7\<close> apart) move up by 32.
\<close>

definition py_lower_char :: "char \<Rightarrow> char" where
  "py_lower_char c =
     (let n = (of_char c :: nat)
      in if (65 \<le> n \<and> n \<le> 90) \<or> (192 \<le> n \<and> n \<le> 222 \<and> n \<noteq> 215)
         then char_of (n + 32) else c)"

definition py_lower :: "string \<Rightarrow> string" where
  "py_lower s = map py_lower_char s"

text \<open>
  The ASGI connection scope, as far as the router reads it. The header list holds the
  pairs of the scope in their order, names in lower case as ASGI delivers them;
  \<^verbatim>\<open>Headers.get(key, default)\<close> of Starlette returns the value of the first pair
  whose name is the key.
\<close>

record scope =
  scope_type :: string
  scope_method :: string
  scope_path :: "string option"
  scope_headers :: "(string \<times> string) list"

definition headers_get :: "(string \<times> string) list \<Rightarrow> string \<Rightarrow> string \<Rightarrow> string" where
  "headers_get headers key dflt = (case map_of headers key of None \<Rightarrow> dflt | Some v \<Rightarrow> v)"

definition should_use_jsonrpc :: "scope \<Rightarrow> (string \<times> string) list \<Rightarrow> bool" where
  "should_use_jsonrpc scope headers =
     (if scope_method scope \<noteq> ''POST'' then False
      else
        let accept = headers_get headers ''accept'' ''''
        in if py_in ''application/json-seq'' accept \<or> py_in ''text/event-stream'' accept
           then False
           else
             let content_type = headers_get headers ''content-type'' ''''
             in py_in ''application/json'' (py_lower content_type))"

text \<open>
  \<^verbatim>\<open>HybridMCPApp.__call__\<close>: which of the two applications receives the request.
\<close>

datatype handler = JsonRpcShim | StreamApp

definition hybrid_call :: "scope \<Rightarrow> handler" where
  "hybrid_call scope =
     (if scope_type scope \<noteq> ''http'' then StreamApp
      else
        let headers = scope_headers scope;
            path = (case scope_path scope of None \<Rightarrow> '''' | Some p \<Rightarrow> p)
        in if prefix ''/mcp'' path \<and> should_use_jsonrpc scope headers
           then JsonRpcShim
           else StreamApp)"

subsection \<open>JSON values and Python's dynamic operations\<close>

text \<open>
  A parsed JSON document as Python holds it. An object is the dict, as the list of its
  items in insertion order; its keys are distinct, and \<open>map_of\<close> is the lookup. A
  number is an \<^verbatim>\<open>int\<close> or a \<^verbatim>\<open>float\<close>: \<^verbatim>\<open>json.loads\<close> reads \<open>NaN\<close>,
  \<open>Infinity\<close> and \<open>-Infinity\<close>, and a literal beyond the range of a double such as
  \<open>1e400\<close> becomes an infinity. A finite float is \<open>m * 2 ^ e\<close>, kept as the pair of
  \<open>m\<close> and \<open>e\<close>.
\<close>

datatype pyfloat =
    Finite int int
  | PosInf
  | NegInf
  | NaN

datatype json =
    JNull
  | JBool bool
  | JInt int
  | JFloat pyfloat
  | JStr string
  | JList "json list"
  | JObj "(string \<times> json) list"

text \<open>The truth value Python gives a value in \<^verbatim>\<open>not x\<close> and \<^verbatim>\<open>x or y\<close>.\<close>

fun truthy :: "json \<Rightarrow> bool" where
  "truthy JNull = False"
| "truthy (JBool b) = b"
| "truthy (JInt n) = (n \<noteq> 0)"
| "truthy (JFloat (Finite m e)) = (m \<noteq> 0)"
| "truthy (JFloat f) = True"
| "truthy (JStr s) = (s \<noteq> [])"
| "truthy (JList xs) = (xs \<noteq> [])"
| "truthy (JObj kvs) = (kvs \<noteq> [])"

definition py_or :: "json \<Rightarrow> json \<Rightarrow> json" where
  "py_or a b = (if truthy a then a else b)"

fun type_name :: "json \<Rightarrow> string" where
  "type_name JNull = ''NoneType''"
| "type_name (JBool b) = ''bool''"
| "type_name (JInt n) = ''int''"
| "type_name (JFloat f) = ''float''"
| "type_name (JStr s) = ''str''"
| "type_name (JList xs) = ''list''"
| "type_name (JObj kvs) = ''dict''"

definition quote :: string where
  "quote = [CHR 0x27]"

definition no_attribute :: "json \<Rightarrow> string \<Rightarrow> exn" where
  "no_attribute v attr =
     AttributeError (quote @ type_name v @ quote @ '' object has no attribute '' @
       quote @ attr @ quote)"

text \<open>
  \<^verbatim>\<open>v.get(key)\<close>: a dict answers with the value or \<open>None\<close>; no other JSON value
  has the method.
\<close>

fun py_get :: "json \<Rightarrow> string \<Rightarrow> exn + json" where
  "py_get (JObj kvs) key = Inr (case map_of kvs key of None \<Rightarrow> JNull | Some v \<Rightarrow> v)"
| "py_get v key = Inl (no_attribute v ''get'')"

text \<open>
  \<^verbatim>\<open>_resolve_tool_name\<close> on the value that \<^verbatim>\<open>params.get("name")\<close> returns,
  which need not be a string: a false value is a missing name; \<^verbatim>\<open>"." in raw_name\<close>
  raises on a number, and is membership on a list and on the keys of a dict, which
  have neither \<^verbatim>\<open>split\<close> nor \<^verbatim>\<open>startswith\<close>.
\<close>

definition resolve_tool_name_dyn :: "json \<Rightarrow> exn + string" where
  "resolve_tool_name_dyn raw_name =
     (case raw_name of
        JNull \<Rightarrow> resolve_tool_name None
      | JStr s \<Rightarrow> resolve_tool_name (Some s)
      | JList xs \<Rightarrow>
          if xs = [] then Inl (ValueError ''Missing tool name'')
          else if JStr ''.'' \<in> set xs then Inl (no_attribute raw_name ''split'')
          else Inl (no_attribute raw_name ''startswith'')
      | JObj kvs \<Rightarrow>
          if kvs = [] then Inl (ValueError ''Missing tool name'')
          else if ''.'' \<in> set (map fst kvs) then Inl (no_attribute raw_name ''split'')
          else Inl (no_attribute raw_name ''startswith'')
      | _ \<Rightarrow>
          if \<not> truthy raw_name then Inl (ValueError ''Missing tool name'')
          else Inl (TypeError (''argument of type '' @ quote @ type_name raw_name @ quote @
                 '' is not iterable'')))"

subsection \<open>Responses\<close>

text \<open>
  Starlette's \<^verbatim>\<open>JSONResponse\<close> renders its content when it is constructed, as
  \<^verbatim>\<open>json.dumps(content, ensure_ascii=False, allow_nan=False, ...).encode("utf-8")\<close>.
  The dump raises \<^verbatim>\<open>ValueError\<close> on a float that is not finite; the encoding of the
  dumped text raises \<^verbatim>\<open>UnicodeEncodeError\<close> on a surrogate code point in a string or in
  a key. Of the second message, which also names the character and its position in the
  text, the reason is kept.
\<close>

fun surrogate_in :: "string \<Rightarrow> bool" where
  "surrogate_in (c # d # cs) =
     ((c = CHR 0xED \<and> 160 \<le> (of_char d :: nat)) \<or> surrogate_in (d # cs))"
| "surrogate_in cs = False"

fun has_nonfinite :: "json \<Rightarrow> bool" where
  "has_nonfinite (JFloat (Finite m e)) = False"
| "has_nonfinite (JFloat f) = True"
| "has_nonfinite (JList xs) = list_ex has_nonfinite xs"
| "has_nonfinite (JObj kvs) = list_ex (\<lambda>kv. has_nonfinite (snd kv)) kvs"
| "has_nonfinite v = False"

fun has_surrogate :: "json \<Rightarrow> bool" where
  "has_surrogate (JStr s) = surrogate_in s"
| "has_surrogate (JList xs) = list_ex has_surrogate xs"
| "has_surrogate (JObj kvs) =
     list_ex (\<lambda>kv. surrogate_in (fst kv) \<or> has_surrogate (snd kv)) kvs"
| "has_surrogate v = False"

definition render_failure :: "json \<Rightarrow> exn option" where
  "render_failure content =
     (if has_nonfinite content
      then Some (ValueError ''Out of range float values are not JSON compliant'')
      else if has_surrogate content
      then Some (UnicodeEncodeError ''surrogates not allowed'')
      else None)"

text \<open>
  A response object holds its status and the content it has rendered;
  \<open>json_response\<close> is the constructor call \<^verbatim>\<open>JSONResponse(content, status_code)\<close>.
\<close>

datatype response = JSONResponse (status_code: nat) (body: json)

definition json_response :: "nat \<Rightarrow> json \<Rightarrow> exn + response" where
  "json_response status content =
     (case render_failure content of
        Some e \<Rightarrow> Inl e
      | None \<Rightarrow> Inr (JSONResponse status content))"

definition jsonrpc_result :: "json \<Rightarrow> json \<Rightarrow> exn + response" where
  "jsonrpc_result id_value result =
     json_response 200
       (JObj [(''jsonrpc'', JStr ''2.0''), (''id'', id_value), (''result'', result)])"

definition jsonrpc_error :: "json \<Rightarrow> int \<Rightarrow> string \<Rightarrow> exn + response" where
  "jsonrpc_error id_value code message =
     json_response 200
       (JObj [(''jsonrpc'', JStr ''2.0''), (''id'', id_value),
              (''error'', JObj [(''code'', JInt code), (''message'', JStr message)])])"

subsection \<open>Content normalization\<close>

text \<open>
  A result item, by what \<^verbatim>\<open>_serialize_content\<close> asks of it: what
  \<^verbatim>\<open>item.model_dump()\<close> returns when the item has that attribute, the dict the item
  is when it is one, and \<^verbatim>\<open>str(item)\<close>. The first two are independent, so an item
  can have both.
\<close>

record item =
  item_model_dump :: "json option"
  item_dict :: "(string \<times> json) list option"
  item_str :: string

definition text_block :: "string \<Rightarrow> json" where
  "text_block s = JObj [(''type'', JStr ''text''), (''text'', JStr s)]"

fun serialize_loop :: "json list \<Rightarrow> item list \<Rightarrow> json list" where
  "serialize_loop content [] = content"
| "serialize_loop content (item # items) =
     (case item_model_dump item of
        Some dumped \<Rightarrow> serialize_loop (content @ [dumped]) items
      | None \<Rightarrow>
          (case item_dict item of
             Some kvs \<Rightarrow> serialize_loop (content @ [JObj kvs]) items
           | None \<Rightarrow> serialize_loop (content @ [text_block (item_str item)]) items))"

definition serialize_content :: "item list \<Rightarrow> json list" where
  "serialize_content items = serialize_loop [] items"

text \<open>A Python string as a result item: no \<^verbatim>\<open>model_dump\<close>, not a dict, its own text.\<close>

definition str_item :: "string \<Rightarrow> item" where
  "str_item s = \<lparr>item_model_dump = None, item_dict = None, item_str = s\<rparr>"

subsection \<open>The server object and its collaborators\<close>

record entry =
  entry_content :: json
  entry_metadata :: json

datatype qfilter = Filter json

text \<open>
  What the handlers read of the \<^verbatim>\<open>mcp\<close> object, and the code they call outside
  this module, taken as parameters: the tool catalogue, the constructors
  \<^verbatim>\<open>Entry(content=..., metadata=...)\<close> and \<^verbatim>\<open>models.Filter(**query_filter)\<close>, the
  connector's \<^verbatim>\<open>store\<close> (\<open>None\<close> when it returns) and \<^verbatim>\<open>search\<close>, each of which
  may raise, and Python's \<^verbatim>\<open>str\<close> on a value that is not a string.
\<close>

record env =
  mcp_name :: string
  settings_collection_name :: "string option"
  settings_search_limit :: int
  tool_payload :: "exn + json list"
  entry_ctor :: "json \<Rightarrow> json \<Rightarrow> exn + entry"
  filter_ctor :: "json \<Rightarrow> exn + qfilter"
  connector_store :: "entry \<Rightarrow> json \<Rightarrow> exn option"
  connector_search :: "json \<Rightarrow> json \<Rightarrow> int \<Rightarrow> qfilter option \<Rightarrow> exn + entry list"
  py_str :: "json \<Rightarrow> string"

text \<open>The calls made to the connector, in order.\<close>

datatype call =
    StoreCall entry json
  | SearchCall json json int "qfilter option"

definition default_collection :: "env \<Rightarrow> json" where
  "default_collection env =
     (case settings_collection_name env of None \<Rightarrow> JNull | Some s \<Rightarrow> JStr s)"

text \<open>A value inside an f-string: a string is itself, anything else goes through \<^verbatim>\<open>str\<close>.\<close>

definition py_format :: "env \<Rightarrow> json \<Rightarrow> string" where
  "py_format env v = (case v of JStr s \<Rightarrow> s | _ \<Rightarrow> py_str env v)"

subsection \<open>The two tools\<close>

fun render_entries :: "env \<Rightarrow> string list \<Rightarrow> entry list \<Rightarrow> string list" where
  "render_entries env content [] = content"
| "render_entries env content (entry # entries) =
     (let entry_meta = py_or (entry_metadata entry) (JObj [])
      in render_entries env
           (content @
              [''<entry><content>'' @ py_format env (entry_content entry) @
               ''</content><metadata>'' @ py_format env entry_meta @
               ''</metadata></entry>''])
           entries)"

text \<open>\<^verbatim>\<open>models.Filter(**query_filter) if query_filter else None\<close>.\<close>

definition build_filter :: "env \<Rightarrow> json \<Rightarrow> exn + qfilter option" where
  "build_filter env query_filter =
     (if truthy query_filter
      then (case filter_ctor env query_filter of Inl e \<Rightarrow> Inl e | Inr f \<Rightarrow> Inr (Some f))
      else Inr None)"

text \<open>
  \<^verbatim>\<open>_call_tool_direct\<close>. The result pairs the connector calls made with the
  returned list of strings or the raised exception.
\<close>

definition call_tool_direct :: "env \<Rightarrow> string \<Rightarrow> json \<Rightarrow> call list \<times> (exn + string list)" where
  "call_tool_direct env name arguments =
     (if name = ''qdrant-store'' then
        (case py_get arguments ''information'' of
           Inl e \<Rightarrow> ([], Inl e)
         | Inr information \<Rightarrow>
             if \<not> truthy information then ([], Inl (ValueError ''information is required''))
             else
               (case py_get arguments ''metadata'' of
                  Inl e \<Rightarrow> ([], Inl e)
                | Inr metadata \<Rightarrow>
                    (case py_get arguments ''collection_name'' of
                       Inl e \<Rightarrow> ([], Inl e)
                     | Inr collection_name \<Rightarrow>
                         let collection = py_or collection_name (default_collection env)
                         in if \<not> truthy collection
                            then ([], Inl (ValueError
                                   ''collection_name is required when no default is set''))
                            else
                              (case entry_ctor env information metadata of
                                 Inl e \<Rightarrow> ([], Inl e)
                               | Inr entry \<Rightarrow>
                                   (case connector_store env entry collection of
                                      Some e \<Rightarrow> ([StoreCall entry collection], Inl e)
                                    | None \<Rightarrow>
                                        ([StoreCall entry collection],
                                         Inr [''Remembered: '' @ py_format env information @
                                              '' in collection '' @
                                              py_format env collection]))))))
      else if name = ''qdrant-find'' then
        (case py_get arguments ''query'' of
           Inl e \<Rightarrow> ([], Inl e)
         | Inr query \<Rightarrow>
             if \<not> truthy query then ([], Inl (ValueError ''query is required''))
             else
               (case py_get arguments ''collection_name'' of
                  Inl e \<Rightarrow> ([], Inl e)
                | Inr collection_name \<Rightarrow>
                    let collection = py_or collection_name (default_collection env)
                    in if \<not> truthy collection
                       then ([], Inl (ValueError
                              ''collection_name is required when no default is set''))
                       else
                         (case py_get arguments ''query_filter'' of
                            Inl e \<Rightarrow> ([], Inl e)
                          | Inr query_filter \<Rightarrow>
                              (case build_filter env query_filter of
                                 Inl e \<Rightarrow> ([], Inl e)
                               | Inr filter_obj \<Rightarrow>
                                   let limit = settings_search_limit env;
                                       made = [SearchCall query collection limit filter_obj]
                                   in (case connector_search env query collection limit
                                              filter_obj of
                                         Inl e \<Rightarrow> (made, Inl e)
                                       | Inr entries \<Rightarrow>
                                           if entries = []
                                           then (made, Inr [''No matching entries.''])
                                           else (made,
                                             Inr (render_entries env
                                               [''Results for the query '' @ quote @
                                                py_format env query @ quote]
                                               entries)))))))
      else ([], Inl (ValueError (''Unknown tool: '' @ name))))"

subsection \<open>The JSON-RPC dispatcher\<close>

text \<open>
  \<^verbatim>\<open>_handle_jsonrpc\<close>. The first argument of the handler is what
  \<^verbatim>\<open>await request.json()\<close> gives: the parsed body, or the exception of a body that
  does not parse. \<open>Inl\<close> in the result is an exception that leaves the handler: the
  \<^verbatim>\<open>try\<close> block holds the call of \<^verbatim>\<open>_call_tool_direct\<close> alone, and a response
  that fails to render, also the one built in the \<^verbatim>\<open>except\<close> block, raises.
\<close>

definition handle_jsonrpc :: "env \<Rightarrow> exn + json \<Rightarrow> call list \<times> (exn + response)" where
  "handle_jsonrpc env request_json =
     (case request_json of
        Inl e \<Rightarrow>
          ([], json_response 400 (JObj [(''error'', JStr ''Invalid JSON-RPC payload'')]))
      | Inr payload \<Rightarrow>
          (case py_get payload ''method'' of
             Inl e \<Rightarrow> ([], Inl e)
           | Inr method \<Rightarrow>
               (case py_get payload ''id'' of
                  Inl e \<Rightarrow> ([], Inl e)
                | Inr id_value \<Rightarrow>
                    if method = JStr ''initialize'' then
                      ([], jsonrpc_result id_value
                         (JObj [(''protocolVersion'', JStr ''0.1''),
                                (''serverInfo'',
                                   JObj [(''name'', JStr (mcp_name env)),
                                         (''version'', JStr ''0.1.0'')]),
                                (''capabilities'',
                                   JObj [(''tools'', JObj [(''listChanged'', JBool True)])])]))
                    else if method = JStr ''tools/list'' then
                      (case tool_payload env of
                         Inl e \<Rightarrow> ([], Inl e)
                       | Inr tools \<Rightarrow>
                           ([], jsonrpc_result id_value (JObj [(''tools'', JList tools)])))
                    else if method = JStr ''tools/list_changed'' then
                      ([], jsonrpc_result id_value (JObj []))
                    else if method = JStr ''tools/call'' then
                      (case py_get payload ''params'' of
                         Inl e \<Rightarrow> ([], Inl e)
                       | Inr p \<Rightarrow>
                           let params = py_or p (JObj [])
                           in (case py_get params ''name'' of
                                 Inl e \<Rightarrow> ([], Inl e)
                               | Inr raw_name \<Rightarrow>
                                   (case resolve_tool_name_dyn raw_name of
                                      Inl e \<Rightarrow> ([], Inl e)
                                    | Inr name \<Rightarrow>
                                        (case py_get params ''arguments'' of
                                           Inl e \<Rightarrow> ([], Inl e)
                                         | Inr a \<Rightarrow>
                                             let arguments = py_or a (JObj [])
                                             in (case call_tool_direct env name arguments of
                                                   (made, Inl exc) \<Rightarrow>
                                                     (made, jsonrpc_error id_value (- 32000)
                                                        (str_exc exc))
                                                 | (made, Inr result_blocks) \<Rightarrow>
                                                     (made, jsonrpc_result id_value
                                                        (JObj [(''content'',
                                                           JList (serialize_content
                                                             (map str_item result_blocks)))])))))))
                    else if method = JStr ''ping'' then
                      ([], jsonrpc_result id_value (JObj [(''status'', JStr ''ok'')]))
                    else
                      ([], jsonrpc_error id_value (- 32601)
                         (''Method not implemented: '' @ py_format env method)))))"

subsection \<open>Batch embedding extraction\<close>

text \<open>
  One item of \<^verbatim>\<open>response.data\<close>: its \<^verbatim>\<open>index\<close> attribute when it has one, and
  its embedding. The numbers of an embedding are copied and never computed with, so
  their type is a parameter.
\<close>

record 'a embedding_item =
  data_index :: "int option"
  data_embedding :: "'a list"

text \<open>\<^verbatim>\<open>getattr(item, "index", 0)\<close>.\<close>

definition index_key :: "'a embedding_item \<Rightarrow> int" where
  "index_key item = (case data_index item of None \<Rightarrow> 0 | Some i \<Rightarrow> i)"

text \<open>
  The two lines after the request in \<^verbatim>\<open>embed_documents\<close>. Python's \<^verbatim>\<open>sorted\<close>
  is stable, as is \<open>sort_key\<close>: items with equal keys keep their order.
\<close>

definition extract_vectors :: "'a embedding_item list \<Rightarrow> 'a list list" where
  "extract_vectors data =
     (let sorted_data = sort_key index_key data
      in map data_embedding sorted_data)"

text \<open>
  \<^verbatim>\<open>OpenAIEmbeddingProvider.embed_documents\<close>; the request to the provider is a
  parameter and may raise.
\<close>

definition embed_documents ::
  "(string \<Rightarrow> string list \<Rightarrow> exn + 'a embedding_item list) \<Rightarrow> string \<Rightarrow> string list \<Rightarrow>
   exn + 'a list list" where
  "embed_documents create model_name documents =
     (case create model_name documents of
        Inl e \<Rightarrow> Inl e
      | Inr data \<Rightarrow> Inr (extract_vectors data))"

subsection \<open>A concrete server\<close>

text \<open>
  A server for evaluating the handlers on concrete requests: the default collection is
  \<open>notes\<close>, the connector stores everything and finds nothing, \<^verbatim>\<open>Entry\<close> takes a
  string content with a metadata that is \<open>None\<close> or a dict, as the argument contract
  of the store tool has it, and \<^verbatim>\<open>str\<close> is given for \<open>None\<close>, the booleans and the
  empty list and dict. On other values, and in the text of the validation error, the
  server is a stand-in; the evaluations below do not reach them.
\<close>

fun example_str :: "json \<Rightarrow> string" where
  "example_str JNull = ''None''"
| "example_str (JBool True) = ''True''"
| "example_str (JBool False) = ''False''"
| "example_str (JStr s) = s"
| "example_str (JList []) = ''[]''"
| "example_str (JObj []) = ''{}''"
| "example_str v = ''...''"

definition example_entry :: "json \<Rightarrow> json \<Rightarrow> exn + entry" where
  "example_entry content metadata =
     (case content of
        JStr s \<Rightarrow>
          (case metadata of
             JNull \<Rightarrow> Inr \<lparr>entry_content = content, entry_metadata = metadata\<rparr>
           | JObj kvs \<Rightarrow> Inr \<lparr>entry_content = content, entry_metadata = metadata\<rparr>
           | _ \<Rightarrow> Inl (ExternalError ''1 validation error for Entry''))
      | _ \<Rightarrow> Inl (ExternalError ''1 validation error for Entry''))"

definition example_env :: env where
  "example_env =
     \<lparr>mcp_name = ''mcp-server-qdrant'',
      settings_collection_name = Some ''notes'',
      settings_search_limit = 10,
      tool_payload = Inr [],
      entry_ctor = example_entry,
      filter_ctor = (\<lambda>q. Inr (Filter q)),
      connector_store = (\<lambda>e c. None),
      connector_search = (\<lambda>q c l f. Inr []),
      py_str = example_str\<rparr>"

section \<open>Properties\<close>

subsection \<open>Tool-name resolution\<close>

lemma split_first_sep:
  assumes "sep \<in> set s"
  shows "s = takeWhile (\<lambda>c. c \<noteq> sep) s @ sep # tl (dropWhile (\<lambda>c. c \<noteq> sep) s)"
proof -
  from assms have "dropWhile (\<lambda>c. c \<noteq> sep) s \<noteq> []" by auto
  moreover from this have "hd (dropWhile (\<lambda>c. c \<noteq> sep) s) = sep"
    using hd_dropWhile [of "\<lambda>c. c \<noteq> sep" s] by simp
  ultimately have "dropWhile (\<lambda>c. c \<noteq> sep) s = sep # tl (dropWhile (\<lambda>c. c \<noteq> sep) s)"
    by (cases "dropWhile (\<lambda>c. c \<noteq> sep) s") auto
  then show ?thesis
    using takeWhile_dropWhile_id [of "\<lambda>c. c \<noteq> sep" s] by metis
qed

lemma drop_changes:
  assumes "0 < n" "n \<le> length xs"
  shows "drop n xs \<noteq> xs"
proof
  assume "drop n xs = xs"
  then have "length (drop n xs) = length xs" by simp
  with assms show False by simp
qed

lemma takeWhile_cut:
  "sep \<notin> set ns \<Longrightarrow> takeWhile (\<lambda>c. c \<noteq> sep) (ns @ sep # rest) = ns"
  by (induction ns) auto

lemma dropWhile_cut:
  "sep \<notin> set ns \<Longrightarrow> dropWhile (\<lambda>c. c \<noteq> sep) (ns @ sep # rest) = sep # rest"
  by (induction ns) auto

lemma resolve_dotted:
  assumes "CHR ''.'' \<notin> set ns"
  shows "resolve_tool_name (Some (ns @ ''.'' @ rest)) =
         Inr (if ns \<in> set known_namespaces then rest else ns @ ''.'' @ rest)"
  using assms
  by (simp add: resolve_tool_name_def py_split1_def takeWhile_cut dropWhile_cut)

lemma resolve_undotted:
  assumes "CHR ''.'' \<notin> set raw" "raw \<noteq> []"
  shows "resolve_tool_name (Some raw) =
         Inr (if prefix ''qdrant_'' raw then drop (length ''qdrant_'') raw else raw)"
  using assms by (simp add: resolve_tool_name_def)

lemma resolve_total:
  assumes "raw \<noteq> []"
  shows "\<exists>name. resolve_tool_name (Some raw) = Inr name"
proof (cases "CHR ''.'' \<in> set raw")
  case True
  from split_first_sep [OF True]
  have "raw = takeWhile (\<lambda>c. c \<noteq> CHR ''.'') raw @ ''.'' @ tl (dropWhile (\<lambda>c. c \<noteq> CHR ''.'') raw)"
    by simp
  moreover have "CHR ''.'' \<notin> set (takeWhile (\<lambda>c. c \<noteq> CHR ''.'') raw)"
    by (auto dest: set_takeWhileD)
  ultimately show ?thesis
    using resolve_dotted by metis
next
  case False
  with assms show ?thesis by (simp add: resolve_undotted)
qed

lemma resolve_fixed_iff_canonical:
  "resolve_tool_name (Some name) = Inr name \<longleftrightarrow> canonical name"
proof (cases "name = []")
  case True
  then show ?thesis by (simp add: resolve_tool_name_def canonical_def)
next
  case nonempty: False
  show ?thesis
  proof (cases "CHR ''.'' \<in> set name")
    case True
    define ns where "ns = takeWhile (\<lambda>c. c \<noteq> CHR ''.'') name"
    define rest where "rest = tl (dropWhile (\<lambda>c. c \<noteq> CHR ''.'') name)"
    have cut: "name = ns @ ''.'' @ rest"
      using split_first_sep [OF True] by (simp add: ns_def rest_def)
    have nodot: "CHR ''.'' \<notin> set ns"
      by (auto simp: ns_def dest: set_takeWhileD)
    have "length name = length (ns @ ''.'' @ rest)"
      using cut by simp
    then have "length rest < length name" by simp
    then have "rest \<noteq> name" by auto
    moreover have "resolve_tool_name (Some name) =
        Inr (if ns \<in> set known_namespaces then rest else name)"
      using resolve_dotted [OF nodot, of rest] cut by simp
    ultimately show ?thesis
      using True nonempty by (auto simp: canonical_def ns_def)
  next
    case False
    have "drop (length ''qdrant_'') name \<noteq> name" if "prefix ''qdrant_'' name"
    proof -
      from that have "length ''qdrant_'' \<le> length name" by (rule prefix_length_le)
      moreover have "0 < length ''qdrant_''" by simp
      ultimately show ?thesis by (rule drop_changes [rotated])
    qed
    then show ?thesis
      using False nonempty resolve_undotted [OF False nonempty]
      by (auto simp: canonical_def)
  qed
qed

text \<open>
  C3. For a non-empty raw name the resolver does exactly this. A name with a separator is
  cut at its first \<open>.\<close> into namespace and rest: an alias namespace gives the rest, any
  other namespace gives the raw name, and the literal prefix is not looked at. A name
  without a separator that starts with \<open>qdrant_\<close> loses that prefix. Any other name is
  returned as it is. So \<open>qdrant.qdrant-store\<close> resolves to \<open>qdrant-store\<close> and
  \<open>unknown-ns.foo\<close> to itself.
\<close>

theorem resolve_tool_name_algorithm:
  "(\<forall>ns rest. CHR ''.'' \<notin> set ns \<and> ns \<in> {''qdrant'', ''qdrant-rag'', ''qdrant-rag-mcp''} \<longrightarrow>
      resolve_tool_name (Some (ns @ ''.'' @ rest)) = Inr rest) \<and>
   (\<forall>ns rest. CHR ''.'' \<notin> set ns \<and> ns \<notin> {''qdrant'', ''qdrant-rag'', ''qdrant-rag-mcp''} \<longrightarrow>
      resolve_tool_name (Some (ns @ ''.'' @ rest)) = Inr (ns @ ''.'' @ rest)) \<and>
   (\<forall>s. CHR ''.'' \<notin> set s \<longrightarrow> resolve_tool_name (Some (''qdrant_'' @ s)) = Inr s) \<and>
   (\<forall>raw. raw \<noteq> [] \<and> CHR ''.'' \<notin> set raw \<and> \<not> prefix ''qdrant_'' raw \<longrightarrow>
      resolve_tool_name (Some raw) = Inr raw) \<and>
   (\<forall>raw. CHR ''.'' \<in> set raw \<longrightarrow>
      (\<exists>ns rest. CHR ''.'' \<notin> set ns \<and> raw = ns @ ''.'' @ rest)) \<and>
   resolve_tool_name (Some ''qdrant.qdrant-store'') = Inr ''qdrant-store'' \<and>
   resolve_tool_name (Some ''unknown-ns.foo'') = Inr ''unknown-ns.foo''"
proof (intro conjI allI impI)
  fix ns rest :: string
  assume "CHR ''.'' \<notin> set ns \<and> ns \<in> {''qdrant'', ''qdrant-rag'', ''qdrant-rag-mcp''}"
  then show "resolve_tool_name (Some (ns @ ''.'' @ rest)) = Inr rest"
    using resolve_dotted [of ns rest] by (simp add: known_namespaces_def)
next
  fix ns rest :: string
  assume "CHR ''.'' \<notin> set ns \<and> ns \<notin> {''qdrant'', ''qdrant-rag'', ''qdrant-rag-mcp''}"
  then show "resolve_tool_name (Some (ns @ ''.'' @ rest)) = Inr (ns @ ''.'' @ rest)"
    using resolve_dotted [of ns rest] by (simp add: known_namespaces_def)
next
  fix s :: string
  assume "CHR ''.'' \<notin> set s"
  then show "resolve_tool_name (Some (''qdrant_'' @ s)) = Inr s"
    using resolve_undotted [of "''qdrant_'' @ s"] by simp
next
  fix raw :: string
  assume "raw \<noteq> [] \<and> CHR ''.'' \<notin> set raw \<and> \<not> prefix ''qdrant_'' raw"
  then show "resolve_tool_name (Some raw) = Inr raw"
    using resolve_undotted [of raw] by simp
next
  fix raw :: string
  assume dot: "CHR ''.'' \<in> set raw"
  have "CHR ''.'' \<notin> set (takeWhile (\<lambda>c. c \<noteq> CHR ''.'') raw)"
    by (auto dest: set_takeWhileD)
  moreover have "raw = takeWhile (\<lambda>c. c \<noteq> CHR ''.'') raw @ ''.'' @
      tl (dropWhile (\<lambda>c. c \<noteq> CHR ''.'') raw)"
    using split_first_sep [OF dot] by simp
  ultimately show "\<exists>ns rest. CHR ''.'' \<notin> set ns \<and> raw = ns @ ''.'' @ rest"
    by blast
next
  show "resolve_tool_name (Some ''qdrant.qdrant-store'') = Inr ''qdrant-store''"
    using resolve_dotted [of "''qdrant''" "''qdrant-store''"]
    by (simp add: known_namespaces_def)
next
  show "resolve_tool_name (Some ''unknown-ns.foo'') = Inr ''unknown-ns.foo''"
    using resolve_dotted [of "''unknown-ns''" "''foo''"]
    by (simp add: known_namespaces_def)
qed

theorem resolve_tool_name_algorithm_witness:
  "resolve_tool_name (Some ''qdrant-rag.qdrant-find'') = Inr ''qdrant-find'' \<and>
   resolve_tool_name (Some ''other.qdrant_find'') = Inr ''other.qdrant_find'' \<and>
   resolve_tool_name (Some ''qdrant_find'') = Inr ''find'' \<and>
   resolve_tool_name (Some ''qdrant-find'') = Inr ''qdrant-find''"
proof -
  note alg = resolve_tool_name_algorithm
  have "resolve_tool_name (Some (''qdrant-rag'' @ ''.'' @ ''qdrant-find'')) = Inr ''qdrant-find''"
    using alg [THEN conjunct1, rule_format, of "''qdrant-rag''" "''qdrant-find''"] by simp
  moreover have "resolve_tool_name (Some (''other'' @ ''.'' @ ''qdrant_find'')) =
      Inr (''other'' @ ''.'' @ ''qdrant_find'')"
    using alg [THEN conjunct2, THEN conjunct1, rule_format, of "''other''" "''qdrant_find''"]
    by simp
  moreover have "resolve_tool_name (Some (''qdrant_'' @ ''find'')) = Inr ''find''"
    using alg [THEN conjunct2, THEN conjunct2, THEN conjunct1, rule_format, of "''find''"]
    by simp
  moreover have "resolve_tool_name (Some ''qdrant-find'') = Inr ''qdrant-find''"
    using alg [THEN conjunct2, THEN conjunct2, THEN conjunct2, THEN conjunct1, rule_format,
        of "''qdrant-find''"]
    by simp
  ultimately show ?thesis by simp
qed

text \<open>
  C2, as stated: resolving the result of a resolution changes nothing. The resolver
  removes one layer only, so a name with two alias layers is rewritten twice.
\<close>

theorem resolve_not_idempotent:
  "''qdrant.qdrant.foo'' \<noteq> [] \<and>
   resolve_tool_name (Some ''qdrant.qdrant.foo'') = Inr ''qdrant.foo'' \<and>
   resolve_twice ''qdrant.qdrant.foo'' = Inr ''foo'' \<and>
   resolve_twice ''qdrant.qdrant.foo'' \<noteq> resolve_tool_name (Some ''qdrant.qdrant.foo'')"
  by (simp add: resolve_twice_def resolve_tool_name_def py_split1_def known_namespaces_def)

text \<open>
  C2, amended: for a non-empty raw name whose resolution is \<open>name\<close>, resolving again
  returns \<open>name\<close> exactly when \<open>name\<close> is canonical (not empty, and no rule of the
  resolver rewrites it); a canonical name is returned unchanged.
\<close>

theorem resolve_idempotent_iff_canonical:
  assumes "raw \<noteq> []" and "resolve_tool_name (Some raw) = Inr name"
  shows "resolve_twice raw = resolve_tool_name (Some raw) \<longleftrightarrow> canonical name"
  using assms resolve_fixed_iff_canonical [of name] by (simp add: resolve_twice_def)

theorem resolve_idempotent_iff_canonical_witness:
  "''qdrant.qdrant-store'' \<noteq> [] \<and>
   resolve_tool_name (Some ''qdrant.qdrant-store'') = Inr ''qdrant-store'' \<and>
   canonical ''qdrant-store'' \<and>
   resolve_twice ''qdrant.qdrant-store'' = resolve_tool_name (Some ''qdrant.qdrant-store'')"
proof -
  have r: "resolve_tool_name (Some ''qdrant.qdrant-store'') = Inr ''qdrant-store''"
    by (simp add: resolve_tool_name_def py_split1_def known_namespaces_def)
  have c: "canonical ''qdrant-store''"
    by (simp add: canonical_def)
  have n: "''qdrant.qdrant-store'' \<noteq> []" by simp
  from resolve_idempotent_iff_canonical [OF n r] c
  have "resolve_twice ''qdrant.qdrant-store'' = resolve_tool_name (Some ''qdrant.qdrant-store'')"
    by simp
  with r c n show ?thesis by simp
qed

subsection \<open>Request routing\<close>

lemma py_in_sublist: "py_in needle hay \<longleftrightarrow> sublist needle hay"
  by (induction hay) (simp_all add: sublist_Cons_right)

lemma hybrid_call_cases: "hybrid_call scope = JsonRpcShim \<or> hybrid_call scope = StreamApp"
  by (cases "hybrid_call scope") simp_all

lemma hybrid_call_shim_iff:
  "hybrid_call scope = JsonRpcShim \<longleftrightarrow>
     scope_type scope = ''http'' \<and>
     scope_method scope = ''POST'' \<and>
     prefix ''/mcp'' (case scope_path scope of None \<Rightarrow> '''' | Some p \<Rightarrow> p) \<and>
     \<not> sublist ''text/event-stream'' (headers_get (scope_headers scope) ''accept'' '''') \<and>
     \<not> sublist ''application/json-seq'' (headers_get (scope_headers scope) ''accept'' '''') \<and>
     sublist ''application/json''
       (py_lower (headers_get (scope_headers scope) ''content-type'' ''''))"
  unfolding hybrid_call_def should_use_jsonrpc_def Let_def py_in_sublist
  by auto

text \<open>
  C4. An HTTP request goes to the JSON-RPC shim exactly when its method is \<open>POST\<close>, its
  path starts with \<open>/mcp\<close>, its \<open>Accept\<close> header contains neither
  \<open>text/event-stream\<close> nor \<open>application/json-seq\<close>, and its \<open>Content-Type\<close>
  header, in lower case, contains \<open>application/json\<close>. Every other request goes to the
  streaming application; so does a request whose \<open>Accept\<close> header contains
  \<open>text/event-stream\<close>, whatever its content type.
\<close>

theorem router_selects_jsonrpc_iff:
  assumes "scope_type scope = ''http''"
  shows "(hybrid_call scope = JsonRpcShim \<longleftrightarrow>
            scope_method scope = ''POST'' \<and>
            prefix ''/mcp'' (case scope_path scope of None \<Rightarrow> '''' | Some p \<Rightarrow> p) \<and>
            \<not> sublist ''text/event-stream'' (headers_get (scope_headers scope) ''accept'' '''') \<and>
            \<not> sublist ''application/json-seq''
                (headers_get (scope_headers scope) ''accept'' '''') \<and>
            sublist ''application/json''
              (py_lower (headers_get (scope_headers scope) ''content-type'' ''''))) \<and>
         (hybrid_call scope \<noteq> JsonRpcShim \<longrightarrow> hybrid_call scope = StreamApp) \<and>
         (sublist ''text/event-stream'' (headers_get (scope_headers scope) ''accept'' '''') \<longrightarrow>
            hybrid_call scope = StreamApp)"
  using assms hybrid_call_shim_iff [of scope] hybrid_call_cases [of scope] by auto

theorem router_selects_jsonrpc_iff_witness:
  "hybrid_call \<lparr>scope_type = ''http'', scope_method = ''POST'', scope_path = Some ''/mcp'',
      scope_headers = [(''accept'', ''application/json''),
                       (''content-type'', ''application/json'')]\<rparr> = JsonRpcShim \<and>
   hybrid_call \<lparr>scope_type = ''http'', scope_method = ''POST'', scope_path = Some ''/mcp'',
      scope_headers = [(''accept'', ''application/json, text/event-stream''),
                       (''content-type'', ''application/json'')]\<rparr> = StreamApp"
proof -
  let ?plain = "\<lparr>scope_type = ''http'', scope_method = ''POST'', scope_path = Some ''/mcp'',
      scope_headers = [(''accept'', ''application/json''),
                       (''content-type'', ''application/json'')]\<rparr>"
  let ?sse = "\<lparr>scope_type = ''http'', scope_method = ''POST'', scope_path = Some ''/mcp'',
      scope_headers = [(''accept'', ''application/json, text/event-stream''),
                       (''content-type'', ''application/json'')]\<rparr>"
  have lower: "py_lower ''application/json'' = ''application/json''"
    by code_simp
  have "hybrid_call ?plain = JsonRpcShim"
    using router_selects_jsonrpc_iff [of ?plain, THEN conjunct1]
    by (simp add: headers_get_def lower sublist_Cons_right)
  moreover have "hybrid_call ?sse = StreamApp"
    using router_selects_jsonrpc_iff [of ?sse, THEN conjunct2, THEN conjunct2]
    by (simp add: headers_get_def sublist_Cons_right)
  ultimately show ?thesis by simp
qed

text \<open>
  C9. The \<open>Accept\<close> test compares characters exactly and the \<open>Content-Type\<close> test
  compares them in lower case. A \<open>POST\<close> under \<open>/mcp\<close> with a JSON content type in any
  casing, whose \<open>Accept\<close> header holds \<open>text/event-stream\<close> or
  \<open>application/json-seq\<close> only in another casing, is handled by the JSON-RPC shim.
\<close>

theorem accept_match_case_sensitive:
  assumes "scope_type scope = ''http''" and "scope_method scope = ''POST''"
    and "scope_path scope = Some path" and "prefix ''/mcp'' path"
    and "sublist ''application/json''
           (py_lower (headers_get (scope_headers scope) ''content-type'' ''''))"
    and "accept = headers_get (scope_headers scope) ''accept'' ''''"
    and "sublist ''text/event-stream'' (py_lower accept) \<or>
         sublist ''application/json-seq'' (py_lower accept)"
    and "\<not> sublist ''text/event-stream'' accept"
    and "\<not> sublist ''application/json-seq'' accept"
  shows "hybrid_call scope = JsonRpcShim"
  using assms hybrid_call_shim_iff [of scope] by simp

theorem accept_match_case_sensitive_witness:
  "sublist ''application/json'' (py_lower ''Application/JSON; charset=utf-8'') \<and>
   sublist ''text/event-stream'' (py_lower ''TEXT/EVENT-STREAM'') \<and>
   \<not> sublist ''text/event-stream'' ''TEXT/EVENT-STREAM'' \<and>
   \<not> sublist ''application/json-seq'' ''TEXT/EVENT-STREAM'' \<and>
   hybrid_call \<lparr>scope_type = ''http'', scope_method = ''POST'', scope_path = Some ''/mcp'',
      scope_headers = [(''accept'', ''TEXT/EVENT-STREAM''),
                       (''content-type'', ''Application/JSON; charset=utf-8'')]\<rparr> = JsonRpcShim"
proof -
  let ?scope = "\<lparr>scope_type = ''http'', scope_method = ''POST'', scope_path = Some ''/mcp'',
      scope_headers = [(''accept'', ''TEXT/EVENT-STREAM''),
                       (''content-type'', ''Application/JSON; charset=utf-8'')]\<rparr>"
  have ct: "py_lower ''Application/JSON; charset=utf-8'' = ''application/json; charset=utf-8''"
    by code_simp
  have acc: "py_lower ''TEXT/EVENT-STREAM'' = ''text/event-stream''"
    by code_simp
  have 1: "sublist ''application/json''
      (py_lower (headers_get (scope_headers ?scope) ''content-type'' ''''))"
    by (simp add: headers_get_def ct)
  have 2: "''TEXT/EVENT-STREAM'' = headers_get (scope_headers ?scope) ''accept'' ''''"
    by (simp add: headers_get_def)
  have 3: "sublist ''text/event-stream'' (py_lower ''TEXT/EVENT-STREAM'') \<or>
      sublist ''application/json-seq'' (py_lower ''TEXT/EVENT-STREAM'')"
    by (simp add: acc)
  have 4: "\<not> sublist ''text/event-stream'' ''TEXT/EVENT-STREAM''"
    by (simp add: sublist_Cons_right)
  have 5: "\<not> sublist ''application/json-seq'' ''TEXT/EVENT-STREAM''"
    by (simp add: sublist_Cons_right)
  have t: "scope_type ?scope = ''http''" and m: "scope_method ?scope = ''POST''"
    and p: "scope_path ?scope = Some ''/mcp''" and q: "prefix ''/mcp'' ''/mcp''"
    by simp_all
  have "hybrid_call ?scope = JsonRpcShim"
    by (rule accept_match_case_sensitive [OF t m p q 1 2 3 4 5])
  with 1 3 4 5 show ?thesis by (simp add: headers_get_def ct acc)
qed

subsection \<open>Content normalization\<close>

lemma list_of_three:
  assumes "length xs = 3"
  shows "xs = [xs ! 0, xs ! 1, xs ! 2]"
  using assms by (auto simp: length_Suc_conv numeral_3_eq_3)

lemma serialize_loop_append:
  "serialize_loop content items = content @ serialize_loop [] items"
proof (induction items arbitrary: content)
  case Nil
  show ?case by simp
next
  case (Cons item items)
  show ?case
    using Cons.IH [of "content @ [x]" for x] Cons.IH [of "[x]" for x]
    by (simp split: option.splits)
qed

lemma serialize_content_Cons:
  "serialize_content (item # items) =
     (case item_model_dump item of
        Some dumped \<Rightarrow> dumped
      | None \<Rightarrow> (case item_dict item of
                   Some kvs \<Rightarrow> JObj kvs
                 | None \<Rightarrow> text_block (item_str item))) # serialize_content items"
  unfolding serialize_content_def
  using serialize_loop_append [of "[x]" items for x]
  by (simp split: option.splits)

lemma serialize_content_Nil: "serialize_content [] = []"
  by (simp add: serialize_content_def)

lemma length_serialize_content: "length (serialize_content items) = length items"
  by (induction items) (simp_all add: serialize_content_Nil serialize_content_Cons)

lemma nth_serialize_content:
  "i < length items \<Longrightarrow>
   serialize_content items ! i =
     (case item_model_dump (items ! i) of
        Some dumped \<Rightarrow> dumped
      | None \<Rightarrow> (case item_dict (items ! i) of
                   Some kvs \<Rightarrow> JObj kvs
                 | None \<Rightarrow> text_block (item_str (items ! i))))"
proof (induction items arbitrary: i)
  case Nil
  then show ?case by simp
next
  case (Cons item items)
  then show ?case
    by (cases i) (auto simp: serialize_content_Cons split: option.splits)
qed

lemma serialize_strings:
  "serialize_content (map str_item texts) = map text_block texts"
  by (induction texts) (simp_all add: serialize_content_Nil serialize_content_Cons str_item_def)

text \<open>
  C5. Normalization gives one block for each item, in the order of the items: the dump of
  an item that has \<open>model_dump\<close>, else the item itself when it is a dict, else the text
  block of its string.
\<close>

theorem serialize_content_order_preserving:
  "length (serialize_content items) = length items \<and>
   (\<forall>i<length items. \<forall>dumped. item_model_dump (items ! i) = Some dumped \<longrightarrow>
      serialize_content items ! i = dumped) \<and>
   (\<forall>i<length items. \<forall>kvs.
      item_model_dump (items ! i) = None \<and> item_dict (items ! i) = Some kvs \<longrightarrow>
      serialize_content items ! i = JObj kvs) \<and>
   (\<forall>i<length items.
      item_model_dump (items ! i) = None \<and> item_dict (items ! i) = None \<longrightarrow>
      serialize_content items ! i =
        JObj [(''type'', JStr ''text''), (''text'', JStr (item_str (items ! i)))])"
  by (simp add: length_serialize_content nth_serialize_content text_block_def)

theorem serialize_content_order_preserving_witness:
  "serialize_content
     [\<lparr>item_model_dump = Some (JObj [(''type'', JStr ''text''), (''text'', JStr ''typed'')]),
       item_dict = None, item_str = ''TextContent(...)''\<rparr>,
      \<lparr>item_model_dump = None, item_dict = Some [(''a'', JInt 1)], item_str = ''{...}''\<rparr>,
      \<lparr>item_model_dump = None, item_dict = None, item_str = ''plain text''\<rparr>] =
     [JObj [(''type'', JStr ''text''), (''text'', JStr ''typed'')],
      JObj [(''a'', JInt 1)],
      JObj [(''type'', JStr ''text''), (''text'', JStr ''plain text'')]]"
proof -
  let ?items = "[\<lparr>item_model_dump = Some (JObj [(''type'', JStr ''text''), (''text'', JStr ''typed'')]),
       item_dict = None, item_str = ''TextContent(...)''\<rparr>,
      \<lparr>item_model_dump = None, item_dict = Some [(''a'', JInt 1)], item_str = ''{...}''\<rparr>,
      \<lparr>item_model_dump = None, item_dict = None, item_str = ''plain text''\<rparr>]"
  note rule = serialize_content_order_preserving [of ?items]
  have len: "length (serialize_content ?items) = 3"
    using rule [THEN conjunct1] by simp
  have b0: "serialize_content ?items ! 0 =
      JObj [(''type'', JStr ''text''), (''text'', JStr ''typed'')]"
    using rule [THEN conjunct2, THEN conjunct1, rule_format, of 0] by simp
  have b1: "serialize_content ?items ! 1 = JObj [(''a'', JInt 1)]"
    using rule [THEN conjunct2, THEN conjunct2, THEN conjunct1, rule_format, of 1] by simp
  have b2: "serialize_content ?items ! 2 =
      JObj [(''type'', JStr ''text''), (''text'', JStr ''plain text'')]"
    using rule [THEN conjunct2, THEN conjunct2, THEN conjunct2, rule_format, of 2] by simp
  have "serialize_content ?items =
      [serialize_content ?items ! 0, serialize_content ?items ! 1, serialize_content ?items ! 2]"
    using len by (rule list_of_three)
  then show ?thesis
    by (simp only: b0 b1 b2)
qed

subsection \<open>The two tools\<close>

lemma render_entries_map:
  "render_entries env content entries =
     content @
     map (\<lambda>entry. ''<entry><content>'' @ py_format env (entry_content entry) @
            ''</content><metadata>'' @ py_format env (py_or (entry_metadata entry) (JObj [])) @
            ''</metadata></entry>'') entries"
proof (induction entries arbitrary: content)
  case Nil
  show ?case by simp
next
  case (Cons entry entries)
  show ?case
    by (simp add: Let_def Cons.IH)
qed

lemma find_returns:
  assumes "py_get arguments ''query'' = Inr query" and "truthy query"
    and "py_get arguments ''collection_name'' = Inr collection_name"
    and "collection = py_or collection_name (default_collection env)"
    and "truthy collection"
    and "py_get arguments ''query_filter'' = Inr query_filter"
    and "build_filter env query_filter = Inr filter_obj"
    and "connector_search env query collection (settings_search_limit env) filter_obj =
         Inr entries"
  shows "call_tool_direct env ''qdrant-find'' arguments =
         ([SearchCall query collection (settings_search_limit env) filter_obj],
          Inr (if entries = [] then [''No matching entries.'']
               else render_entries env
                      [''Results for the query '' @ quote @ py_format env query @ quote]
                      entries))"
  using assms by (simp add: call_tool_direct_def Let_def)

text \<open>
  C6. The find tool, called with a true query and a collection that resolves, once the
  filter is built and the search has returned: no entries give the single string
  \<open>No matching entries.\<close>; \<open>n > 0\<close> entries give \<open>1 + n\<close> strings, the header naming
  the query and then one string for each entry, in the order of the search, holding the
  entry's content and metadata. Normalization turns each string into a text block.
\<close>

theorem find_tool_result_blocks:
  assumes "py_get arguments ''query'' = Inr query" and "truthy query"
    and "py_get arguments ''collection_name'' = Inr collection_name"
    and "collection = py_or collection_name (default_collection env)"
    and "truthy collection"
    and "py_get arguments ''query_filter'' = Inr query_filter"
    and "build_filter env query_filter = Inr filter_obj"
    and "connector_search env query collection (settings_search_limit env) filter_obj =
         Inr entries"
  shows "\<exists>blocks.
           snd (call_tool_direct env ''qdrant-find'' arguments) = Inr blocks \<and>
           serialize_content (map str_item blocks) = map text_block blocks \<and>
           (entries = [] \<longrightarrow> blocks = [''No matching entries.'']) \<and>
           (entries \<noteq> [] \<longrightarrow>
              length blocks = 1 + length entries \<and>
              blocks ! 0 = ''Results for the query '' @ quote @ py_format env query @ quote \<and>
              (\<forall>i<length entries.
                 blocks ! (1 + i) =
                   ''<entry><content>'' @ py_format env (entry_content (entries ! i)) @
                   ''</content><metadata>'' @
                   py_format env (py_or (entry_metadata (entries ! i)) (JObj [])) @
                   ''</metadata></entry>''))"
  unfolding find_returns [OF assms]
  by (simp add: serialize_strings render_entries_map)

theorem find_tool_result_blocks_witness:
  "snd (call_tool_direct example_env ''qdrant-find'' (JObj [(''query'', JStr ''x'')])) =
     Inr [''No matching entries.''] \<and>
   snd (call_tool_direct
          (example_env\<lparr>connector_search := \<lambda>q c l f.
             Inr [\<lparr>entry_content = JStr ''alpha'', entry_metadata = JNull\<rparr>,
                  \<lparr>entry_content = JStr ''beta'', entry_metadata = JNull\<rparr>]\<rparr>)
          ''qdrant-find'' (JObj [(''query'', JStr ''x'')])) =
     Inr [''Results for the query '' @ quote @ ''x'' @ quote,
          ''<entry><content>alpha</content><metadata>{}</metadata></entry>'',
          ''<entry><content>beta</content><metadata>{}</metadata></entry>'']"
proof -
  let ?args = "JObj [(''query'', JStr ''x'')]"
  let ?found = "[\<lparr>entry_content = JStr ''alpha'', entry_metadata = JNull\<rparr>,
                 \<lparr>entry_content = JStr ''beta'', entry_metadata = JNull\<rparr>]"
  let ?env = "example_env\<lparr>connector_search := \<lambda>q c l f. Inr ?found\<rparr>"
  have q: "py_get ?args ''query'' = Inr (JStr ''x'')" and tq: "truthy (JStr ''x'')"
    and cn: "py_get ?args ''collection_name'' = Inr JNull"
    and qf: "py_get ?args ''query_filter'' = Inr JNull"
    by simp_all
  have c0: "JStr ''notes'' = py_or JNull (default_collection example_env)"
    and c1: "JStr ''notes'' = py_or JNull (default_collection ?env)"
    and tc: "truthy (JStr ''notes'')"
    and f0: "build_filter example_env JNull = Inr None"
    and f1: "build_filter ?env JNull = Inr None"
    by (simp_all add: py_or_def default_collection_def example_env_def build_filter_def)
  have s0: "connector_search example_env (JStr ''x'') (JStr ''notes'')
      (settings_search_limit example_env) None = Inr []"
    by (simp add: example_env_def)
  have s1: "connector_search ?env (JStr ''x'') (JStr ''notes'')
      (settings_search_limit ?env) None = Inr ?found"
    by simp
  from find_tool_result_blocks [OF q tq cn c0 tc qf f0 s0]
  have none: "snd (call_tool_direct example_env ''qdrant-find'' ?args) =
      Inr [''No matching entries.'']"
    by auto
  from find_tool_result_blocks [OF q tq cn c1 tc qf f1 s1]
  obtain blocks where
    b: "snd (call_tool_direct ?env ''qdrant-find'' ?args) = Inr blocks"
    and len: "length blocks = 3"
    and b0: "blocks ! 0 = ''Results for the query '' @ quote @ ''x'' @ quote"
    and rest: "\<forall>i<2. blocks ! (1 + i) =
        ''<entry><content>'' @ py_format ?env (entry_content (?found ! i)) @
        ''</content><metadata>'' @
        py_format ?env (py_or (entry_metadata (?found ! i)) (JObj [])) @
        ''</metadata></entry>''"
    by (auto simp: py_format_def)
  from rest [rule_format, of 0]
  have b1: "blocks ! 1 = ''<entry><content>alpha</content><metadata>{}</metadata></entry>''"
    by (simp add: py_format_def py_or_def example_env_def)
  from rest [rule_format, of 1]
  have b2: "blocks ! 2 = ''<entry><content>beta</content><metadata>{}</metadata></entry>''"
    by (simp add: py_format_def py_or_def example_env_def numeral_2_eq_2)
  have "blocks = [blocks ! 0, blocks ! 1, blocks ! 2]"
    using len by (rule list_of_three)
  then have "blocks = [''Results for the query '' @ quote @ ''x'' @ quote,
      ''<entry><content>alpha</content><metadata>{}</metadata></entry>'',
      ''<entry><content>beta</content><metadata>{}</metadata></entry>'']"
    by (simp only: b0 b1 b2)
  with b none show ?thesis by simp
qed

subsection \<open>The JSON-RPC dispatcher\<close>

lemma handle_tools_call:
  assumes "py_get payload ''method'' = Inr (JStr ''tools/call'')"
    and "py_get payload ''id'' = Inr id_value"
    and "py_get payload ''params'' = Inr p"
    and "py_get (py_or p (JObj [])) ''name'' = Inr raw_name"
    and "resolve_tool_name_dyn raw_name = Inr name"
    and "py_get (py_or p (JObj [])) ''arguments'' = Inr a"
  shows "handle_jsonrpc env (Inr payload) =
         (case call_tool_direct env name (py_or a (JObj [])) of
            (made, Inl exc) \<Rightarrow> (made, jsonrpc_error id_value (- 32000) (str_exc exc))
          | (made, Inr result_blocks) \<Rightarrow>
              (made, jsonrpc_result id_value
                 (JObj [(''content'', JList (map text_block result_blocks))])))"
  using assms by (simp add: handle_jsonrpc_def Let_def serialize_strings)

lemma store_requires_information:
  assumes "py_get arguments ''information'' = Inr information" and "\<not> truthy information"
  shows "call_tool_direct env ''qdrant-store'' arguments =
         ([], Inl (ValueError ''information is required''))"
  using assms by (simp add: call_tool_direct_def)

lemma render_information_required:
  "render_failure
     (JObj [(''jsonrpc'', JStr ''2.0''), (''id'', id_value),
            (''error'', JObj [(''code'', JInt (- 32000)),
                              (''message'', JStr ''information is required'')])]) =
   render_failure id_value"
  by (simp add: render_failure_def)

text \<open>
  C1, at the request \<open>{"jsonrpc": "2.0", "id": 1, "method": "tools/call",
  "params": {"arguments": {}}}\<close>: the name is resolved before the \<open>try\<close> block is
  entered, so the \<open>ValueError\<close> of the missing name leaves the handler and no JSON-RPC
  response is built.
\<close>

theorem tools_call_missing_name_propagates:
  "handle_jsonrpc env
     (Inr (JObj [(''jsonrpc'', JStr ''2.0''), (''id'', JInt 1), (''method'', JStr ''tools/call''),
                 (''params'', JObj [(''arguments'', JObj [])])])) =
   ([], Inl (ValueError ''Missing tool name''))"
  by (simp add: handle_jsonrpc_def py_or_def resolve_tool_name_dyn_def resolve_tool_name_def)

text \<open>
  C7, as stated: every \<open>tools/call\<close> request that names the store tool and gives no
  \<open>information\<close> is answered by the JSON-RPC error \<open>-32000\<close>. The request
  \<open>{"jsonrpc": "2.0", "id": NaN, "method": "tools/call", "params": {"name":
  "qdrant-store", "arguments": {}}}\<close> parses, and the error response that echoes its id
  does not render: the \<open>ValueError\<close> of the rendering leaves the handler.
\<close>

theorem store_without_information_unrenderable_id:
  "handle_jsonrpc example_env
     (Inr (JObj [(''jsonrpc'', JStr ''2.0''), (''id'', JFloat NaN),
                 (''method'', JStr ''tools/call''),
                 (''params'', JObj [(''name'', JStr ''qdrant-store''),
                                    (''arguments'', JObj [])])])) =
   ([], Inl (ValueError ''Out of range float values are not JSON compliant'')) \<and>
   handle_jsonrpc example_env
     (Inr (JObj [(''jsonrpc'', JStr ''2.0''), (''id'', JFloat NaN),
                 (''method'', JStr ''tools/call''),
                 (''params'', JObj [(''name'', JStr ''qdrant-store''),
                                    (''arguments'', JObj [])])])) \<noteq>
   ([], Inr (JSONResponse 200
      (JObj [(''jsonrpc'', JStr ''2.0''), (''id'', JFloat NaN),
             (''error'', JObj [(''code'', JInt (- 32000)),
                               (''message'', JStr ''information is required'')])])))"
  by (simp add: handle_jsonrpc_def py_or_def resolve_tool_name_dyn_def resolve_tool_name_def
      call_tool_direct_def jsonrpc_error_def json_response_def render_failure_def)

text \<open>
  C7, amended: a \<open>tools/call\<close> request whose name resolves to \<open>qdrant-store\<close> and
  whose arguments (the empty dict when the request gives none) have no true
  \<open>information\<close> makes no call to the connector. When the id of the request renders as
  JSON (no float that is not finite, no surrogate code point), the request is answered by
  the JSON-RPC error \<open>-32000\<close> with the message \<open>information is required\<close>; when the id
  does not render, the exception of the rendering leaves the handler.
\<close>

theorem store_without_information_error_or_raise:
  assumes "py_get payload ''method'' = Inr (JStr ''tools/call'')"
    and "py_get payload ''id'' = Inr id_value"
    and "py_get payload ''params'' = Inr params"
    and "py_get params ''name'' = Inr (JStr raw)"
    and "resolve_tool_name (Some raw) = Inr ''qdrant-store''"
    and "py_get params ''arguments'' = Inr a"
    and "py_get (py_or a (JObj [])) ''information'' = Inr information"
    and "\<not> truthy information"
  shows "fst (handle_jsonrpc env (Inr payload)) = [] \<and>
         (render_failure id_value = None \<longrightarrow>
            handle_jsonrpc env (Inr payload) =
            ([], Inr (JSONResponse 200
               (JObj [(''jsonrpc'', JStr ''2.0''), (''id'', id_value),
                      (''error'', JObj [(''code'', JInt (- 32000)),
                                        (''message'', JStr ''information is required'')])])))) \<and>
         (\<forall>e. render_failure id_value = Some e \<longrightarrow>
            handle_jsonrpc env (Inr payload) = ([], Inl e))"
proof -
  from assms(4) have "truthy params"
    by (cases params) (auto split: option.splits)
  then have params: "py_or params (JObj []) = params"
    by (simp add: py_or_def)
  have name: "resolve_tool_name_dyn (JStr raw) = Inr ''qdrant-store''"
    using assms(5) by (simp add: resolve_tool_name_dyn_def)
  have "handle_jsonrpc env (Inr payload) =
      ([], jsonrpc_error id_value (- 32000) ''information is required'')"
    using handle_tools_call [of payload id_value params "JStr raw" "''qdrant-store''" a env]
      assms(1,2,3,4,6) params name store_requires_information [OF assms(7,8), of env]
    by simp
  then show ?thesis
    by (simp add: jsonrpc_error_def json_response_def render_information_required)
qed

theorem store_without_information_error_or_raise_witness:
  "handle_jsonrpc example_env
     (Inr (JObj [(''jsonrpc'', JStr ''2.0''), (''id'', JInt 7), (''method'', JStr ''tools/call''),
                 (''params'', JObj [(''name'', JStr ''qdrant.qdrant-store''),
                                    (''arguments'', JObj [])])])) =
   ([], Inr (JSONResponse 200
      (JObj [(''jsonrpc'', JStr ''2.0''), (''id'', JInt 7),
             (''error'', JObj [(''code'', JInt (- 32000)),
                               (''message'', JStr ''information is required'')])]))) \<and>
   handle_jsonrpc example_env
     (Inr (JObj [(''jsonrpc'', JStr ''2.0''), (''id'', JFloat PosInf),
                 (''method'', JStr ''tools/call''),
                 (''params'', JObj [(''name'', JStr ''qdrant.qdrant-store''),
                                    (''arguments'', JObj [])])])) =
   ([], Inl (ValueError ''Out of range float values are not JSON compliant''))"
proof -
  let ?params = "JObj [(''name'', JStr ''qdrant.qdrant-store''), (''arguments'', JObj [])]"
  let ?payload = "\<lambda>id_value. JObj [(''jsonrpc'', JStr ''2.0''), (''id'', id_value),
      (''method'', JStr ''tools/call''), (''params'', ?params)]"
  have 1: "py_get (?payload id_value) ''method'' = Inr (JStr ''tools/call'')"
    and 2: "py_get (?payload id_value) ''id'' = Inr id_value"
    and 3: "py_get (?payload id_value) ''params'' = Inr ?params"
    and 4: "py_get ?params ''name'' = Inr (JStr ''qdrant.qdrant-store'')"
    and 6: "py_get ?params ''arguments'' = Inr (JObj [])"
    and 7: "py_get (py_or (JObj []) (JObj [])) ''information'' = Inr JNull"
    and 8: "\<not> truthy JNull"
    for id_value
    by (simp_all add: py_or_def)
  have 5: "resolve_tool_name (Some ''qdrant.qdrant-store'') = Inr ''qdrant-store''"
    by (simp add: resolve_tool_name_def py_split1_def known_namespaces_def)
  note finite = store_without_information_error_or_raise
    [OF 1 [of "JInt 7"] 2 [of "JInt 7"] 3 [of "JInt 7"] 4 5 6 7 8, where env = example_env]
  note infinite = store_without_information_error_or_raise
    [OF 1 [of "JFloat PosInf"] 2 [of "JFloat PosInf"] 3 [of "JFloat PosInf"] 4 5 6 7 8,
      where env = example_env]
  have "handle_jsonrpc example_env (Inr (?payload (JInt 7))) =
      ([], Inr (JSONResponse 200
        (JObj [(''jsonrpc'', JStr ''2.0''), (''id'', JInt 7),
               (''error'', JObj [(''code'', JInt (- 32000)),
                                 (''message'', JStr ''information is required'')])])))"
    using finite [THEN conjunct2, THEN conjunct1]
    by (simp add: render_failure_def)
  moreover have "handle_jsonrpc example_env (Inr (?payload (JFloat PosInf))) =
      ([], Inl (ValueError ''Out of range float values are not JSON compliant''))"
    using infinite [THEN conjunct2, THEN conjunct2, rule_format,
        of "ValueError ''Out of range float values are not JSON compliant''"]
    by (simp add: render_failure_def)
  ultimately show ?thesis by simp
qed

text \<open>
  C10. A \<open>tools/call\<close> response that carries a result has as its content a list of text
  blocks only: both tools return strings, and a string is neither a model nor a dict.
\<close>

theorem tools_call_success_only_text_blocks:
  assumes "py_get payload ''method'' = Inr (JStr ''tools/call'')"
    and "handle_jsonrpc env (Inr payload) = (made, Inr (JSONResponse status (JObj members)))"
    and "map_of members ''result'' = Some result"
  shows "\<exists>texts. result = JObj [(''content'', JList (map text_block texts))] \<and>
           (\<forall>block \<in> set (map text_block texts).
              \<exists>t. block = JObj [(''type'', JStr ''text''), (''text'', JStr t)])"
proof -
  have "\<exists>texts. result = JObj [(''content'', JList (map text_block texts))]"
    using assms
    by (auto simp: handle_jsonrpc_def Let_def serialize_strings jsonrpc_error_def
        jsonrpc_result_def json_response_def
        split: sum.splits prod.splits if_splits option.splits)
  then show ?thesis
    by (auto simp: text_block_def)
qed

theorem tools_call_success_only_text_blocks_witness:
  "handle_jsonrpc example_env
     (Inr (JObj [(''jsonrpc'', JStr ''2.0''), (''id'', JInt 2), (''method'', JStr ''tools/call''),
                 (''params'', JObj [(''name'', JStr ''qdrant-store''),
                      (''arguments'', JObj [(''information'', JStr ''hello'')])])])) =
   ([StoreCall \<lparr>entry_content = JStr ''hello'', entry_metadata = JNull\<rparr> (JStr ''notes'')],
    Inr (JSONResponse 200
      (JObj [(''jsonrpc'', JStr ''2.0''), (''id'', JInt 2),
             (''result'', JObj [(''content'',
                JList [JObj [(''type'', JStr ''text''),
                             (''text'', JStr ''Remembered: hello in collection notes'')]])])]))) \<and>
   (\<exists>texts. JObj [(''content'',
                JList [JObj [(''type'', JStr ''text''),
                             (''text'', JStr ''Remembered: hello in collection notes'')]])] =
            JObj [(''content'', JList (map text_block texts))] \<and>
      (\<forall>block \<in> set (map text_block texts).
         \<exists>t. block = JObj [(''type'', JStr ''text''), (''text'', JStr t)]))"
proof -
  let ?payload = "JObj [(''jsonrpc'', JStr ''2.0''), (''id'', JInt 2),
      (''method'', JStr ''tools/call''),
      (''params'', JObj [(''name'', JStr ''qdrant-store''),
         (''arguments'', JObj [(''information'', JStr ''hello'')])])]"
  let ?result = "JObj [(''content'',
      JList [JObj [(''type'', JStr ''text''),
                   (''text'', JStr ''Remembered: hello in collection notes'')]])]"
  let ?members = "[(''jsonrpc'', JStr ''2.0''), (''id'', JInt 2), (''result'', ?result)]"
  let ?made = "[StoreCall \<lparr>entry_content = JStr ''hello'', entry_metadata = JNull\<rparr>
      (JStr ''notes'')]"
  have m: "py_get ?payload ''method'' = Inr (JStr ''tools/call'')"
    by simp
  have run: "handle_jsonrpc example_env (Inr ?payload) =
      (?made, Inr (JSONResponse 200 (JObj ?members)))"
    by (simp add: handle_jsonrpc_def call_tool_direct_def py_or_def resolve_tool_name_dyn_def
        resolve_tool_name_def example_env_def default_collection_def py_format_def
        jsonrpc_result_def serialize_strings text_block_def json_response_def
        render_failure_def example_entry_def)
  have r: "map_of ?members ''result'' = Some ?result"
    by simp
  from tools_call_success_only_text_blocks [OF m run r] run
  show ?thesis by simp
qed

subsection \<open>Batch embedding extraction\<close>

lemma filter_key_single:
  assumes "distinct (map f xs)" and "k \<in> set xs"
  shows "filter (\<lambda>x. f k = f x) xs = [k]"
  using assms
proof (induction xs)
  case Nil
  then show ?case by simp
next
  case (Cons x xs)
  show ?case
  proof (cases "x = k")
    case True
    with Cons.prems have "f k \<notin> f ` set xs" by simp
    then have "filter (\<lambda>x. f k = f x) xs = []"
      by (auto simp: filter_empty_conv)
    with True show ?thesis by simp
  next
    case False
    with Cons.prems have "k \<in> set xs" and "f x \<noteq> f k" by auto
    with Cons show ?thesis by simp
  qed
qed

lemma sort_key_unique:
  assumes "distinct (map f xs)" and "mset ys = mset xs" and "sorted (map f ys)"
  shows "sort_key f xs = ys"
proof (rule properties_for_sort_key [OF assms(2) _ assms(3)])
  fix k
  assume k: "k \<in> set ys"
  have "mset (map f ys) = mset (map f xs)"
    using assms(2) by simp
  then have dys: "distinct (map f ys)"
    using assms(1) mset_eq_imp_distinct_iff by blast
  have "k \<in> set xs"
    using k assms(2) mset_eq_setD by blast
  then show "filter (\<lambda>x. f k = f x) ys = filter (\<lambda>x. f k = f x) xs"
    using filter_key_single [OF dys k] filter_key_single [OF assms(1)] by simp
qed

lemma sort_key_same_key:
  assumes "\<forall>x \<in> set xs. f x = k"
  shows "sort_key f xs = xs"
proof -
  have "\<forall>x \<in> set (sort_key f xs). f x = k"
    using assms by simp
  then have "sort_key f xs = filter (\<lambda>y. f y = k) (sort_key f xs)"
    by (simp add: filter_id_conv)
  also have "\<dots> = filter (\<lambda>y. f y = k) xs"
    by (rule sort_key_stable)
  also have "\<dots> = xs"
    using assms by (simp add: filter_id_conv)
  finally show ?thesis .
qed

text \<open>
  C8, as stated: for every response and every permutation of its items the extracted
  vectors are the same. Two items without an index tag both get the key 0 and keep the
  order in which the response lists them.
\<close>

theorem extract_vectors_depends_on_order:
  "mset [\<lparr>data_index = None, data_embedding = [2::int]\<rparr>,
         \<lparr>data_index = None, data_embedding = [1]\<rparr>] =
   mset [\<lparr>data_index = None, data_embedding = [1::int]\<rparr>,
         \<lparr>data_index = None, data_embedding = [2]\<rparr>] \<and>
   extract_vectors [\<lparr>data_index = None, data_embedding = [1::int]\<rparr>,
                    \<lparr>data_index = None, data_embedding = [2]\<rparr>] = [[1], [2]] \<and>
   extract_vectors [\<lparr>data_index = None, data_embedding = [2::int]\<rparr>,
                    \<lparr>data_index = None, data_embedding = [1]\<rparr>] = [[2], [1]]"
  by (simp add: extract_vectors_def index_key_def)

text \<open>
  C8, amended. When the items of a response have pairwise distinct index keys, every
  permutation of the items gives the same vectors, and they are the vectors of the
  items read in increasing index order. An item without an index tag has the key 0.
  For every response the extracted vectors are those of a rearrangement of the items
  that is ordered by key and in which the items of each key keep the order of the
  response; so a response whose items all have the same key, as when none is tagged,
  gives its vectors in the order of the response.
\<close>

theorem extract_vectors_permutation_invariant:
  "(distinct (map index_key data) \<and> mset data' = mset data \<longrightarrow>
      extract_vectors data' = extract_vectors data \<and>
      (\<forall>canonical. mset canonical = mset data \<and> sorted (map index_key canonical) \<longrightarrow>
         extract_vectors data' = map data_embedding canonical)) \<and>
   (data_index item = None \<longrightarrow> index_key item = 0) \<and>
   (\<exists>sorted_data.
      extract_vectors data = map data_embedding sorted_data \<and>
      mset sorted_data = mset data \<and>
      sorted (map index_key sorted_data) \<and>
      (\<forall>k. filter (\<lambda>item. index_key item = k) sorted_data =
           filter (\<lambda>item. index_key item = k) data)) \<and>
   ((\<forall>item \<in> set data. index_key item = k) \<longrightarrow>
      extract_vectors data = map data_embedding data)"
proof (intro conjI impI)
  assume perm: "distinct (map index_key data) \<and> mset data' = mset data"
  then have "mset (map index_key data') = mset (map index_key data)"
    by simp
  then have d': "distinct (map index_key data')"
    using perm mset_eq_imp_distinct_iff by blast
  have resorted: "sort_key index_key data' = sort_key index_key data"
    by (rule sort_key_unique [OF d']) (simp_all add: perm)
  show "extract_vectors data' = extract_vectors data"
    by (simp add: extract_vectors_def resorted)
  show "\<forall>canonical. mset canonical = mset data \<and> sorted (map index_key canonical) \<longrightarrow>
      extract_vectors data' = map data_embedding canonical"
  proof (intro allI impI)
    fix canonical
    assume "mset canonical = mset data \<and> sorted (map index_key canonical)"
    then have "sort_key index_key data' = canonical"
      using perm by (intro sort_key_unique [OF d']) simp_all
    then show "extract_vectors data' = map data_embedding canonical"
      by (simp add: extract_vectors_def)
  qed
next
  assume "data_index item = None"
  then show "index_key item = 0"
    by (simp add: index_key_def)
next
  show "\<exists>sorted_data.
      extract_vectors data = map data_embedding sorted_data \<and>
      mset sorted_data = mset data \<and>
      sorted (map index_key sorted_data) \<and>
      (\<forall>k. filter (\<lambda>item. index_key item = k) sorted_data =
           filter (\<lambda>item. index_key item = k) data)"
    by (rule exI [of _ "sort_key index_key data"])
      (simp add: extract_vectors_def sort_key_stable)
next
  assume "\<forall>item \<in> set data. index_key item = k"
  then have "sort_key index_key data = data"
    by (rule sort_key_same_key)
  then show "extract_vectors data = map data_embedding data"
    by (simp add: extract_vectors_def)
qed

theorem extract_vectors_permutation_invariant_witness:
  "distinct (map index_key [\<lparr>data_index = Some 0, data_embedding = [1::int]\<rparr>,
                            \<lparr>data_index = Some 1, data_embedding = [2]\<rparr>]) \<and>
   extract_vectors [\<lparr>data_index = Some 1, data_embedding = [2::int]\<rparr>,
                    \<lparr>data_index = Some 0, data_embedding = [1]\<rparr>] =
   extract_vectors [\<lparr>data_index = Some 0, data_embedding = [1::int]\<rparr>,
                    \<lparr>data_index = Some 1, data_embedding = [2]\<rparr>] \<and>
   extract_vectors [\<lparr>data_index = Some 1, data_embedding = [2::int]\<rparr>,
                    \<lparr>data_index = Some 0, data_embedding = [1]\<rparr>] = [[1], [2]] \<and>
   index_key \<lparr>data_index = None, data_embedding = [3::int]\<rparr> = 0 \<and>
   extract_vectors [\<lparr>data_index = None, data_embedding = [3::int]\<rparr>,
                    \<lparr>data_index = Some 0, data_embedding = [1]\<rparr>,
                    \<lparr>data_index = None, data_embedding = [2]\<rparr>] = [[3], [1], [2]]"
proof -
  let ?ordered = "[\<lparr>data_index = Some 0, data_embedding = [1::int]\<rparr>,
                   \<lparr>data_index = Some 1, data_embedding = [2]\<rparr>]"
  let ?swapped = "[\<lparr>data_index = Some 1, data_embedding = [2::int]\<rparr>,
                   \<lparr>data_index = Some 0, data_embedding = [1]\<rparr>]"
  let ?untagged = "\<lparr>data_index = None, data_embedding = [3::int]\<rparr>"
  let ?same = "[?untagged, \<lparr>data_index = Some 0, data_embedding = [1]\<rparr>,
                \<lparr>data_index = None, data_embedding = [2]\<rparr>]"
  have d: "distinct (map index_key ?ordered)"
    by (simp add: index_key_def)
  have p: "mset ?swapped = mset ?ordered"
    by simp
  note inv = extract_vectors_permutation_invariant
    [where data = ?ordered and data' = ?swapped, THEN conjunct1, rule_format, OF conjI, OF d p]
  have "extract_vectors ?swapped = map data_embedding ?ordered"
    using inv [THEN conjunct2, rule_format, of ?ordered] by (simp add: index_key_def)
  moreover have "index_key ?untagged = 0"
    using extract_vectors_permutation_invariant
      [where item = ?untagged, THEN conjunct2, THEN conjunct1]
    by simp
  moreover have "extract_vectors ?same = map data_embedding ?same"
    using extract_vectors_permutation_invariant
      [where data = ?same and k = 0, THEN conjunct2, THEN conjunct2, THEN conjunct2]
    by (simp add: index_key_def)
  ultimately show ?thesis
    using d inv [THEN conjunct1] by simp
qed

end
